theory Spec2Isabelle
  imports Main "HOL-Library.Word" "HOL-Library.Signed_Division"
begin

unbundle bit_operations_syntax

section \<open>Machine types and data model\<close>

text \<open>
  The fixed-width integers of \<^verbatim>\<open>main.cpp\<close>: \<^verbatim>\<open>uint8_t\<close> is an 8-bit word, \<^verbatim>\<open>int\<close> a
  32-bit word read as two's complement, \<^verbatim>\<open>unsigned long\<close> (the result of
  \<^verbatim>\<open>std::stoul\<close>) a 64-bit word as on LP64 platforms, and Qt's \<^verbatim>\<open>QRgb\<close> a 32-bit word
  laid out as \<^verbatim>\<open>0xAARRGGBB\<close>.
\<close>

type_synonym uint8_t = "8 word"
type_synonym cint = "32 word"
type_synonym ulong = "64 word"
type_synonym QRgb = "32 word"

text \<open>
  A \<^verbatim>\<open>QString\<close> is only ever built by \<^verbatim>\<open>getCharacters\<close>, one \<^verbatim>\<open>uint8_t\<close> at a time
  (each appended as the Latin-1 character of that code), so a character is its 8-bit code.
\<close>

type_synonym QString = "uint8_t list"

text \<open>\<^verbatim>\<open>struct FontDesc { std::string name; int size; uint8_t from; uint8_t to; }\<close>\<close>

record FontDesc =
  desc_name :: string
  desc_size :: cint
  desc_from :: uint8_t
  desc_to :: uint8_t

text \<open>\<^verbatim>\<open>QFont font(family, pointSize)\<close>: the two constructor arguments the program supplies.\<close>

record QFont =
  font_family :: string
  font_pointSize :: int

text \<open>
  The Qt font engine is an external library and is taken as a parameter. Its fields are the
  calls \<^verbatim>\<open>appendFontBitmap\<close> makes: \<^verbatim>\<open>metrics.maxWidth()\<close>, \<^verbatim>\<open>metrics.height()\<close>,
  \<^verbatim>\<open>metrics.overlinePos()\<close> and \<^verbatim>\<open>metrics.width(c)\<close> for the metrics of a font, and
  \<open>image_pixel font (w, h) y c px py\<close> for the value \<^verbatim>\<open>image.pixel(px, py)\<close> of the image
  taken from a \<open>w \<times> h\<close> pixmap that was filled with black and on which character \<open>c\<close> was
  drawn in white at \<open>(0, y)\<close> with that font.
\<close>

record font_engine =
  metrics_maxWidth :: "QFont \<Rightarrow> int"
  metrics_height :: "QFont \<Rightarrow> int"
  metrics_overlinePos :: "QFont \<Rightarrow> int"
  metrics_width :: "QFont \<Rightarrow> uint8_t \<Rightarrow> int"
  image_pixel :: "QFont \<Rightarrow> int \<times> int \<Rightarrow> int \<Rightarrow> uint8_t \<Rightarrow> int \<Rightarrow> int \<Rightarrow> QRgb"

section \<open>getCharacters\<close>

text \<open>
  \<^verbatim>\<open>for (uint8_t c = from ; c <= to ; ++c) { result += c; }\<close>

  The loop state is the counter \<open>c\<close> and the string built so far. The counter is an 8-bit
  word, so \<open>c + 1\<close> wraps from 255 to 0. The loop may run forever, hence the option-valued
  partial function: \<open>None\<close> is a loop that never exits.
\<close>

definition getCharacters_cond :: "uint8_t \<Rightarrow> uint8_t \<times> QString \<Rightarrow> bool" where
  "getCharacters_cond to s \<longleftrightarrow> fst s \<le> to"

definition getCharacters_step :: "uint8_t \<times> QString \<Rightarrow> uint8_t \<times> QString" where
  "getCharacters_step s = (fst s + 1, snd s @ [fst s])"

partial_function (option) getCharacters_loop ::
  "uint8_t \<Rightarrow> uint8_t \<times> QString \<Rightarrow> (uint8_t \<times> QString) option" where
  "getCharacters_loop to s =
     (if getCharacters_cond to s then getCharacters_loop to (getCharacters_step s) else Some s)"

declare getCharacters_loop.simps [code]

definition getCharacters :: "uint8_t \<Rightarrow> uint8_t \<Rightarrow> QString option" where
  "getCharacters from to = map_option snd (getCharacters_loop to (from, []))"

section \<open>normalize\<close>

text \<open>
  The three channels are cut out of the \<^verbatim>\<open>QRgb\<close> value and stored in \<^verbatim>\<open>uint8_t\<close>
  variables; the arithmetic is then done on \<^verbatim>\<open>int\<close>, with C's division that truncates
  towards zero (\<open>sdiv\<close>).
\<close>

definition normalize :: "QRgb \<Rightarrow> int \<Rightarrow> int" where
  "normalize color ceiling =
     (let red = (ucast (drop_bit 16 (color AND 0x00FF0000)) :: uint8_t);
          green = (ucast (drop_bit 8 (color AND 0x0000FF00)) :: uint8_t);
          blue = (ucast (color AND 0x000000FF) :: uint8_t)
      in ((uint red + uint green + uint blue) * ceiling) sdiv (3 * 0xFF))"

text \<open>
  Qt's \<^verbatim>\<open>qRgba(r, g, b, a)\<close>: the pixel sample with the given channel intensities, in the
  \<^verbatim>\<open>0xAARRGGBB\<close> layout that the masks of \<open>normalize\<close> read.
\<close>

definition qRgba :: "nat \<Rightarrow> nat \<Rightarrow> nat \<Rightarrow> nat \<Rightarrow> QRgb" where
  "qRgba r g b a = of_nat (a * 2 ^ 24 + r * 2 ^ 16 + g * 2 ^ 8 + b)"

section \<open>Text output\<close>

text \<open>
  Standard output is a string that every print appends to. \<^verbatim>\<open>std::endl\<close> is a line feed,
  \<^verbatim>\<open>indent(tabs)\<close> is \<^verbatim>\<open>std::string(tabs, '\t')\<close>, and \<open>show_int\<close> is the decimal text that
  \<^verbatim>\<open>operator<<\<close> prints for an \<^verbatim>\<open>int\<close>.
\<close>

definition endl :: string where
  "endl = [CHR 0x0A]"

definition indent :: "nat \<Rightarrow> string" where
  "indent tabs = replicate tabs (CHR 0x09)"

definition digit_char :: "nat \<Rightarrow> char" where
  "digit_char d = ''0123456789'' ! d"

fun show_nat :: "nat \<Rightarrow> string" where
  "show_nat n = (if n < 10 then [digit_char n] else show_nat (n div 10) @ [digit_char (n mod 10)])"

declare show_nat.simps [simp del]

definition show_int :: "int \<Rightarrow> string" where
  "show_int i = (if i < 0 then CHR ''-'' # show_nat (nat (- i)) else show_nat (nat i))"

definition openFontArray :: "string \<Rightarrow> string \<Rightarrow> string" where
  "openFontArray type name = type @ '' '' @ name @ '' = '' @ endl @ ''{'' @ endl"

definition closeFontArray :: string where
  "closeFontArray = ''};'' @ endl"

section \<open>appendFontBitmap\<close>

text \<open>
  One line of pixels: the body of the loop over \<open>y\<close>, with the loop over \<open>x\<close> inside it.
  \<open>[0..width - 1]\<close> is the list of the \<^verbatim>\<open>int\<close> values from 0 below \<open>width\<close>, empty
  when \<open>width \<le> 0\<close>. \<open>base\<close> is the outer \<^verbatim>\<open>y\<close> of the source, the baseline of the drawing.
\<close>

definition appendFontBitmap_row ::
  "font_engine \<Rightarrow> QFont \<Rightarrow> int \<times> int \<Rightarrow> int \<Rightarrow> uint8_t \<Rightarrow> int \<Rightarrow> int \<Rightarrow> string" where
  "appendFontBitmap_row e font pixmap base c width y =
     indent 5
     @ concat (map (\<lambda>x. show_int (normalize (image_pixel e font pixmap base c x y) 255) @ '','')
                   [0..width - 1])
     @ endl"

text \<open>The body of the loop over the characters.\<close>

definition appendFontBitmap_char ::
  "font_engine \<Rightarrow> QFont \<Rightarrow> int \<times> int \<Rightarrow> int \<Rightarrow> int \<Rightarrow> uint8_t \<Rightarrow> string" where
  "appendFontBitmap_char e font pixmap base height c =
     (let width = metrics_width e font c in
        indent 3 @ ''{'' @ endl
        @ indent 4 @ show_int width @ '','' @ endl
        @ indent 4 @ ''{'' @ endl
        @ concat (map (appendFontBitmap_row e font pixmap base c width) [0..height - 1])
        @ indent 4 @ ''}'' @ endl
        @ indent 3 @ ''},'' @ endl)"

definition appendFontBitmap :: "font_engine \<Rightarrow> QString \<Rightarrow> QFont \<Rightarrow> FontDesc \<Rightarrow> string" where
  "appendFontBitmap e characters font desc =
     (let pixmap = (metrics_maxWidth e font, metrics_height e font);
          height = metrics_height e font;
          y = metrics_overlinePos e font - 1
      in indent 1 @ ''{'' @ endl
         @ indent 2 @ [CHR 0x22] @ desc_name desc @ [CHR 0x22] @ '','' @ endl
         @ indent 2 @ show_int (sint (desc_size desc)) @ '','' @ endl
         @ indent 2 @ show_int height @ '','' @ endl
         @ indent 2 @ show_int (uint (desc_from desc)) @ '','' @ endl
         @ indent 2 @ show_int (uint (desc_to desc)) @ '','' @ endl
         @ indent 2 @ ''{'' @ endl
         @ concat (map (appendFontBitmap_char e font pixmap y height) characters)
         @ indent 2 @ ''}'' @ endl
         @ indent 1 @ ''}'' @ endl)"

section \<open>std::stoul\<close>

text \<open>
  \<^verbatim>\<open>std::stoul(str)\<close> of the C++ standard library, base 10, as \<^verbatim>\<open>strtoul\<close> in the "C"
  locale defines it: leading white space is skipped, one sign is accepted, the longest run
  of decimal digits is read and what follows is ignored. With no digit it throws
  \<^verbatim>\<open>std::invalid_argument\<close>, with a magnitude above \<^verbatim>\<open>ULONG_MAX\<close> it throws
  \<^verbatim>\<open>std::out_of_range\<close>, and a minus sign negates the value in the unsigned type.
\<close>

datatype exception = invalid_argument | out_of_range

definition ULONG_MAX :: nat where
  "ULONG_MAX = 2 ^ 64 - 1"

definition isspace :: "char \<Rightarrow> bool" where
  "isspace ch \<longleftrightarrow> ch \<in> set [CHR 0x20, CHR 0x09, CHR 0x0A, CHR 0x0B, CHR 0x0C, CHR 0x0D]"

definition isdigit :: "char \<Rightarrow> bool" where
  "isdigit ch \<longleftrightarrow> ch \<in> set ''0123456789''"

definition digit_value :: "char \<Rightarrow> nat" where
  "digit_value ch = of_char ch - 48"

definition decimal_value :: "string \<Rightarrow> nat" where
  "decimal_value ds = foldl (\<lambda>acc d. acc * 10 + digit_value d) 0 ds"

definition has_sign :: "string \<Rightarrow> bool" where
  "has_sign s \<longleftrightarrow> (case s of [] \<Rightarrow> False | ch # _ \<Rightarrow> ch = CHR ''-'' \<or> ch = CHR ''+'')"

definition is_negative :: "string \<Rightarrow> bool" where
  "is_negative s \<longleftrightarrow> (case s of [] \<Rightarrow> False | ch # _ \<Rightarrow> ch = CHR ''-'')"

definition strip_sign :: "string \<Rightarrow> string" where
  "strip_sign s = (if has_sign s then tl s else s)"

definition stoul :: "string \<Rightarrow> exception + ulong" where
  "stoul str =
     (let s = dropWhile isspace str;
          digits = takeWhile isdigit (strip_sign s)
      in if digits = [] then Inl invalid_argument
         else if ULONG_MAX < decimal_value digits then Inl out_of_range
         else if is_negative s then Inr (- of_nat (decimal_value digits))
         else Inr (of_nat (decimal_value digits)))"

section \<open>main\<close>

text \<open>
  How a run of the program ends: it returns an exit status, or an exception leaves
  \<^verbatim>\<open>main\<close> uncaught and the process is terminated, in both cases with the text written
  to standard output so far. Printing \<^verbatim>\<open>argv[0]\<close> when \<^verbatim>\<open>argc\<close> is 0 prints a null
  pointer, which is undefined. A run that never ends has no outcome (\<open>None\<close>).
\<close>

datatype outcome =
    Exit int string
  | Uncaught exception string
  | Undefined_behaviour

text \<open>The values of \<^verbatim>\<open><cstdlib>\<close> on every mainstream platform.\<close>

definition EXIT_SUCCESS :: int where
  "EXIT_SUCCESS = 0"

definition EXIT_FAILURE :: int where
  "EXIT_FAILURE = 1"

definition usage :: "string \<Rightarrow> string" where
  "usage argv0 =
     ''Basic usage: '' @ argv0 @ '' [ascii-from] [ascii-to] ''
     @ ''[cpp-type] [arr-name] [[font-name] [font-size] ..]'' @ endl"

text \<open>
  The body of the \<^verbatim>\<open>while\<close> loop for one token: the new descriptor and the text printed,
  or the exception that the \<^verbatim>\<open>catch\<close> clause for \<^verbatim>\<open>std::invalid_argument\<close> does not stop.
\<close>

definition process_token ::
  "font_engine \<Rightarrow> QString \<Rightarrow> FontDesc \<Rightarrow> string \<Rightarrow> exception + FontDesc \<times> string" where
  "process_token e characters desc token =
     (case stoul token of
        Inr number \<Rightarrow>
          (let desc' = desc\<lparr>desc_size := ucast number\<rparr> in
             if desc_name desc' \<noteq> [] then
               (let font = \<lparr>font_family = desc_name desc',
                            font_pointSize = sint (desc_size desc')\<rparr>
                in Inr (desc', appendFontBitmap e characters font desc'))
             else Inr (desc', []))
      | Inl invalid_argument \<Rightarrow> Inr (desc\<lparr>desc_name := token\<rparr>, [])
      | Inl out_of_range \<Rightarrow> Inl out_of_range)"

text \<open>
  \<^verbatim>\<open>while (arg_ind < argc) { ... ++arg_ind; }\<close> over the remaining tokens, with the text
  printed so far.
\<close>

fun main_loop ::
  "font_engine \<Rightarrow> QString \<Rightarrow> FontDesc \<Rightarrow> string list \<Rightarrow> string \<Rightarrow> exception \<times> string + string" where
  "main_loop e characters desc [] out = Inr out"
| "main_loop e characters desc (token # rest) out =
     (case process_token e characters desc token of
        Inl ex \<Rightarrow> Inl (ex, out)
      | Inr (desc', text) \<Rightarrow> main_loop e characters desc' rest (out @ text))"

text \<open>
  \<^verbatim>\<open>from <= 255 ? static_cast<uint8_t>(from) : 0\<close>, the expression that fills
  \<^verbatim>\<open>desc.from\<close> and, with \<^verbatim>\<open>to\<close>, \<^verbatim>\<open>desc.to\<close>.
\<close>

definition coerce_uint8 :: "ulong \<Rightarrow> uint8_t" where
  "coerce_uint8 v = (if v \<le> 255 then ucast v else 0)"

text \<open>
  \<^verbatim>\<open>main\<close> from the declaration of \<^verbatim>\<open>desc\<close> on, with the two parsed numbers.
  \<^verbatim>\<open>desc.size\<close> is not initialised in the source and is written before it is first read;
  the model starts it at 0.
\<close>

definition main_after_parse :: "font_engine \<Rightarrow> string list \<Rightarrow> ulong \<Rightarrow> ulong \<Rightarrow> outcome option" where
  "main_after_parse e argv from to =
     (let desc = \<lparr>desc_name = [], desc_size = 0,
                  desc_from = coerce_uint8 from,
                  desc_to = coerce_uint8 to\<rparr>
      in if desc_from desc > desc_to desc then Some (Exit EXIT_FAILURE [])
         else
           (case getCharacters (desc_from desc) (desc_to desc) of
              None \<Rightarrow> None
            | Some characters \<Rightarrow>
                (case main_loop e characters desc (drop 5 argv)
                        (openFontArray (argv ! 3) (argv ! 4)) of
                   Inl (ex, out) \<Rightarrow> Some (Uncaught ex out)
                 | Inr out \<Rightarrow> Some (Exit EXIT_SUCCESS (out @ closeFontArray)))))"

text \<open>
  \<open>argv\<close> is the argument vector as \<^verbatim>\<open>main\<close> reads it after the \<^verbatim>\<open>QGuiApplication\<close>
  object has been constructed, and \<^verbatim>\<open>argc\<close> is its length. The two first calls of
  \<^verbatim>\<open>std::stoul\<close> are outside every \<^verbatim>\<open>try\<close> block.
\<close>

definition main :: "font_engine \<Rightarrow> string list \<Rightarrow> outcome option" where
  "main e argv =
     (if length argv < 7 then
        (case argv of
           [] \<Rightarrow> Some Undefined_behaviour
         | argv0 # _ \<Rightarrow> Some (Exit EXIT_FAILURE (usage argv0)))
      else
        (case stoul (argv ! 1) of
           Inl ex \<Rightarrow> Some (Uncaught ex [])
         | Inr from \<Rightarrow>
             (case stoul (argv ! 2) of
                Inl ex \<Rightarrow> Some (Uncaught ex [])
              | Inr to \<Rightarrow> main_after_parse e argv from to)))"

section \<open>The font table of the specification\<close>

text \<open>
  The source prints while it computes and has no value for a character bitmap or a font
  table. The following definitions follow the specification's data model (section 3), its
  Bitmap Builder (section 4.2) and its output grammar (section 6), so that what the source
  prints can be compared with them.
\<close>

record CharacterBitmap =
  cb_width :: int
  cb_rows :: "int list list"

record FontTable =
  ft_name :: string
  ft_size :: int
  ft_lineHeight :: int
  ft_from :: int
  ft_to :: int
  ft_bitmaps :: "CharacterBitmap list"

definition characterBitmap :: "font_engine \<Rightarrow> QFont \<Rightarrow> uint8_t \<Rightarrow> CharacterBitmap" where
  "characterBitmap e font c =
     (let lineHeight = metrics_height e font;
          maxAdvanceWidth = metrics_maxWidth e font;
          baselineOffset = metrics_overlinePos e font - 1;
          w = metrics_width e font c
      in \<lparr>cb_width = w,
          cb_rows = map (\<lambda>y. map (\<lambda>x. normalize (image_pixel e font (maxAdvanceWidth, lineHeight)
                                                    baselineOffset c x y) 255)
                                  [0..w - 1])
                        [0..lineHeight - 1]\<rparr>)"

definition fontTable :: "font_engine \<Rightarrow> QString \<Rightarrow> QFont \<Rightarrow> FontDesc \<Rightarrow> FontTable" where
  "fontTable e characters font desc =
     \<lparr>ft_name = desc_name desc,
      ft_size = sint (desc_size desc),
      ft_lineHeight = metrics_height e font,
      ft_from = uint (desc_from desc),
      ft_to = uint (desc_to desc),
      ft_bitmaps = map (characterBitmap e font) characters\<rparr>"

definition serialize_row :: "int list \<Rightarrow> string" where
  "serialize_row row = indent 5 @ concat (map (\<lambda>p. show_int p @ '','') row) @ endl"

definition serialize_bitmap :: "CharacterBitmap \<Rightarrow> string" where
  "serialize_bitmap b =
     indent 3 @ ''{'' @ endl
     @ indent 4 @ show_int (cb_width b) @ '','' @ endl
     @ indent 4 @ ''{'' @ endl
     @ concat (map serialize_row (cb_rows b))
     @ indent 4 @ ''}'' @ endl
     @ indent 3 @ ''},'' @ endl"

text \<open>The entry of a font table up to the brace that closes its list of bitmaps.\<close>

definition serialize_fields :: "FontTable \<Rightarrow> string" where
  "serialize_fields t =
     indent 1 @ ''{'' @ endl
     @ indent 2 @ [CHR 0x22] @ ft_name t @ [CHR 0x22] @ '','' @ endl
     @ indent 2 @ show_int (ft_size t) @ '','' @ endl
     @ indent 2 @ show_int (ft_lineHeight t) @ '','' @ endl
     @ indent 2 @ show_int (ft_from t) @ '','' @ endl
     @ indent 2 @ show_int (ft_to t) @ '','' @ endl
     @ indent 2 @ ''{'' @ endl
     @ concat (map serialize_bitmap (ft_bitmaps t))
     @ indent 2 @ ''}'' @ endl"

text \<open>The entry as the grammar writes it: its closing brace is followed by a comma.\<close>

definition serialize :: "FontTable \<Rightarrow> string" where
  "serialize t = serialize_fields t @ indent 1 @ ''},'' @ endl"

text \<open>The entry with a closing brace that no comma follows.\<close>

definition serialize_no_comma :: "FontTable \<Rightarrow> string" where
  "serialize_no_comma t = serialize_fields t @ indent 1 @ ''}'' @ endl"

text \<open>
  The font table that the Bitmap Builder of the specification makes from a font name, a
  size and a character range: the metrics and the bitmaps are those of the font of that
  name and that size.
\<close>

definition specified_table ::
  "font_engine \<Rightarrow> QString \<Rightarrow> string \<Rightarrow> int \<Rightarrow> int \<Rightarrow> int \<Rightarrow> FontTable" where
  "specified_table e characters name pointSize from to =
     \<lparr>ft_name = name,
      ft_size = pointSize,
      ft_lineHeight = metrics_height e \<lparr>font_family = name, font_pointSize = pointSize\<rparr>,
      ft_from = from,
      ft_to = to,
      ft_bitmaps =
        map (characterBitmap e \<lparr>font_family = name, font_pointSize = pointSize\<rparr>) characters\<rparr>"

section \<open>Preconditions on the two range arguments\<close>

text \<open>
  Two conditions on an argument string, to compare with what \<open>stoul\<close> accepts: the
  string begins with a decimal numeral whose value is within the range of
  \<^verbatim>\<open>unsigned long\<close>; and the same after leading white space and one sign have been
  removed.
\<close>

definition begins_with_numeral :: "string \<Rightarrow> bool" where
  "begins_with_numeral s \<longleftrightarrow>
     takeWhile isdigit s \<noteq> [] \<and> decimal_value (takeWhile isdigit s) \<le> ULONG_MAX"

definition numeral_after_space_and_sign :: "string \<Rightarrow> bool" where
  "numeral_after_space_and_sign s \<longleftrightarrow>
     begins_with_numeral (strip_sign (dropWhile isspace s))"

section \<open>A font engine to run the program on\<close>

text \<open>
  A small engine for concrete runs: every font is two pixels high, a character is as wide as
  its code modulo 3, and the drawing is white on the diagonal and black elsewhere.
\<close>

definition sample_engine :: font_engine where
  "sample_engine =
     \<lparr>metrics_maxWidth = (\<lambda>font. 2),
      metrics_height = (\<lambda>font. 2),
      metrics_overlinePos = (\<lambda>font. 1),
      metrics_width = (\<lambda>font c. uint c mod 3),
      image_pixel = (\<lambda>font pixmap y c px py.
                       if px = py then qRgba 255 255 255 255 else qRgba 0 0 0 255)\<rparr>"

section \<open>Properties\<close>

subsection \<open>Reading the channels of a pixel\<close>

lemma drop_bit_red_mask: "drop_bit 16 (0x00FF0000 :: QRgb) = mask 8"
  by (simp add: mask_eq_exp_minus_1 drop_bit_eq_div)

lemma drop_bit_green_mask: "drop_bit 8 (0x0000FF00 :: QRgb) = mask 8"
  by (simp add: mask_eq_exp_minus_1 drop_bit_eq_div)

lemma blue_mask: "(0x000000FF :: QRgb) = mask 8"
  by (simp add: mask_eq_exp_minus_1)

lemma uint_low_byte:
  fixes w :: QRgb
  shows "uint (ucast (w AND mask 8) :: uint8_t) = uint w mod 2 ^ 8"
  unfolding take_bit_eq_mask [symmetric] unsigned_ucast_eq unsigned_take_bit_eq
  by (simp add: take_bit_eq_mod)

lemma uint_drop_bit_div:
  fixes w :: QRgb
  shows "uint (drop_bit k w) = uint w div 2 ^ k"
proof -
  have "take_bit LENGTH(32) (uint w) = uint w"
    by (rule take_bit_int_eq_self) (use uint_bounded [of w] in simp_all)
  then show ?thesis
    unfolding unsigned_drop_bit_eq by (simp add: drop_bit_eq_div)
qed

lemma red_channel:
  "uint (ucast (drop_bit 16 (color AND 0x00FF0000 :: QRgb)) :: uint8_t)
     = uint color div 2 ^ 16 mod 2 ^ 8"
  unfolding drop_bit_and drop_bit_red_mask uint_low_byte uint_drop_bit_div ..

lemma green_channel:
  "uint (ucast (drop_bit 8 (color AND 0x0000FF00 :: QRgb)) :: uint8_t)
     = uint color div 2 ^ 8 mod 2 ^ 8"
  unfolding drop_bit_and drop_bit_green_mask uint_low_byte uint_drop_bit_div ..

lemma blue_channel:
  "uint (ucast (color AND 0x000000FF :: QRgb) :: uint8_t) = uint color mod 2 ^ 8"
  unfolding blue_mask uint_low_byte ..

lemma normalize_channels:
  "normalize color ceiling =
     ((uint color div 2 ^ 16 mod 2 ^ 8 + uint color div 2 ^ 8 mod 2 ^ 8 + uint color mod 2 ^ 8)
        * ceiling) sdiv 765"
  unfolding normalize_def Let_def red_channel green_channel blue_channel by simp

lemma sdiv_nonneg: "0 \<le> a \<Longrightarrow> 0 < b \<Longrightarrow> a sdiv b = a div (b::int)"
  by (cases "a = 0") (simp_all add: signed_divide_int_def)

lemma low_mod: "0 \<le> x \<Longrightarrow> x < m \<Longrightarrow> (x + y * m) mod m = (x::int)"
  by (simp only: mod_mult_self1 mod_pos_pos_trivial)

lemma high_div: "0 \<le> x \<Longrightarrow> x < m \<Longrightarrow> (x + y * m) div m = (y::int)"
  by (simp add: div_pos_pos_trivial)

lemma uint_qRgba:
  assumes "r < 256" "g < 256" "b < 256" "a < 256"
  shows "uint (qRgba r g b a) = int a * 16777216 + int r * 65536 + int g * 256 + int b"
proof -
  have "a * 2 ^ 24 + r * 2 ^ 16 + g * 2 ^ 8 + b < 2 ^ 32"
    using assms by simp
  then have "unat (qRgba r g b a) = a * 2 ^ 24 + r * 2 ^ 16 + g * 2 ^ 8 + b"
    unfolding qRgba_def unat_of_nat by simp
  then show ?thesis
    by (simp add: uint_nat)
qed

lemma channels_of_sum:
  fixes r g b a :: int
  assumes "0 \<le> r" "r < 256" "0 \<le> g" "g < 256" "0 \<le> b" "b < 256"
  shows "(a * 16777216 + r * 65536 + g * 256 + b) div 65536 mod 256 = r"
    and "(a * 16777216 + r * 65536 + g * 256 + b) div 256 mod 256 = g"
    and "(a * 16777216 + r * 65536 + g * 256 + b) mod 256 = b"
proof -
  let ?v = "a * 16777216 + r * 65536 + g * 256 + b"
  have v1: "?v = (g * 256 + b) + (a * 256 + r) * 65536" by simp
  have v2: "?v = b + (a * 65536 + r * 256 + g) * 256" by simp
  have "?v div 65536 = a * 256 + r"
    unfolding v1 by (rule high_div) (use assms in simp_all)
  moreover have "(r + a * 256) mod 256 = r"
    by (rule low_mod) (use assms in simp_all)
  ultimately show "?v div 65536 mod 256 = r"
    by (simp only: add.commute)
  have "?v div 256 = g + (a * 256 + r) * 256"
    unfolding v2 by (subst high_div) (use assms in simp_all)
  moreover have "(g + (a * 256 + r) * 256) mod 256 = g"
    by (rule low_mod) (use assms in simp_all)
  ultimately show "?v div 256 mod 256 = g"
    by (simp only:)
  show "?v mod 256 = b"
    unfolding v2 by (rule low_mod) (use assms in simp_all)
qed

lemma normalize_qRgba:
  assumes "r < 256" "g < 256" "b < 256" "a < 256"
  shows "normalize (qRgba r g b a) ceiling = ((int r + int g + int b) * ceiling) sdiv 765"
  using assms by (simp add: normalize_channels uint_qRgba channels_of_sum)

lemma normalize_255:
  assumes "r < 256" "g < 256" "b < 256" "a < 256"
  shows "normalize (qRgba r g b a) 255 = (int r + int g + int b) div 3"
proof -
  have "normalize (qRgba r g b a) 255 = ((int r + int g + int b) * 255) div 765"
    using assms by (simp add: normalize_qRgba sdiv_nonneg)
  then show ?thesis by simp
qed

text \<open>
  Every \<^verbatim>\<open>QRgb\<close> value is the pixel sample of its four channels, so the statements about
  \<open>qRgba\<close> below are about every value \<open>normalize\<close> can receive.
\<close>

lemma qRgba_channels:
  "qRgba (unat color div 2 ^ 16 mod 2 ^ 8) (unat color div 2 ^ 8 mod 2 ^ 8) (unat color mod 2 ^ 8)
         (unat color div 2 ^ 24) = color"
proof -
  define n where "n = unat color"
  have low: "n mod 65536 = 256 * (n div 256 mod 256) + n mod 256"
    using mod_mult2_eq [of n 256 256] by simp
  have mid: "n mod 16777216 = 65536 * (n div 65536 mod 256) + n mod 65536"
    using mod_mult2_eq [of n 65536 256] by simp
  have "n = 16777216 * (n div 16777216) + n mod 16777216"
    by simp
  then have "(n div 16777216) * 16777216 + (n div 65536 mod 256) * 65536
          + (n div 256 mod 256) * 256 + n mod 256 = n"
    unfolding mid low by (simp only: mult.commute add.assoc)
  then show ?thesis
    unfolding qRgba_def n_def by simp
qed

subsection \<open>C3 and C7: normalize\<close>

text \<open>
  C3. For every pixel sample with red, green and blue channels in 0..255 (and any alpha),
  \<open>normalize\<close> with ceiling 255 returns \<open>floor ((red + green + blue) * 255 / (3 * 255))\<close>,
  and that value lies between 0 and 255. \<open>normalize\<close> is a total function: there is no
  error value it could return.
\<close>

theorem normalize_formula:
  assumes "r < 256" "g < 256" "b < 256" "a < 256"
  shows "normalize (qRgba r g b a) 255 = ((int r + int g + int b) * 255) div (3 * 255)
       \<and> 0 \<le> normalize (qRgba r g b a) 255
       \<and> normalize (qRgba r g b a) 255 \<le> 255"
proof -
  have "normalize (qRgba r g b a) 255 = (int r + int g + int b) div 3"
    using assms by (rule normalize_255)
  moreover have "((int r + int g + int b) * 255) div (3 * 255) = (int r + int g + int b) div 3"
    by simp
  moreover have "0 \<le> (int r + int g + int b) div 3" "(int r + int g + int b) div 3 \<le> 255"
    using assms by arith+
  ultimately show ?thesis by simp
qed

theorem normalize_formula_witness:
  "(200::nat) < 256 \<and> (100::nat) < 256 \<and> (7::nat) < 256 \<and> (255::nat) < 256
   \<and> normalize (qRgba 200 100 7 255) 255 = 102
   \<and> 0 \<le> normalize (qRgba 200 100 7 255) 255
   \<and> normalize (qRgba 200 100 7 255) 255 \<le> 255"
  using normalize_formula [of 200 100 7 255] by simp

text \<open>
  C7. With ceiling 255, \<open>normalize\<close> does not decrease when one of the red, green and blue
  channels increases and the other channels stay as they are; the all-zero sample is
  mapped to 0 and the all-255 sample to 255.
\<close>

theorem normalize_monotone:
  assumes "r \<le> r'" "r' < 256" "g \<le> g'" "g' < 256" "b \<le> b'" "b' < 256" "a < 256"
  shows "normalize (qRgba r g b a) 255 \<le> normalize (qRgba r' g b a) 255
       \<and> normalize (qRgba r g b a) 255 \<le> normalize (qRgba r g' b a) 255
       \<and> normalize (qRgba r g b a) 255 \<le> normalize (qRgba r g b' a) 255
       \<and> normalize (qRgba 0 0 0 a) 255 = 0
       \<and> normalize (qRgba 255 255 255 a) 255 = 255"
proof -
  have lt: "r < 256" "g < 256" "b < 256"
    using assms by simp_all
  have "(int r + int g + int b) div 3 \<le> (int r' + int g + int b) div 3"
    using assms by (intro zdiv_mono1) simp_all
  moreover have "(int r + int g + int b) div 3 \<le> (int r + int g' + int b) div 3"
    using assms by (intro zdiv_mono1) simp_all
  moreover have "(int r + int g + int b) div 3 \<le> (int r + int g + int b') div 3"
    using assms by (intro zdiv_mono1) simp_all
  ultimately show ?thesis
    using assms lt by (simp add: normalize_255)
qed

theorem normalize_monotone_witness:
  "(10::nat) \<le> 200 \<and> (200::nat) < 256 \<and> (20::nat) \<le> 30 \<and> (30::nat) < 256
   \<and> (0::nat) \<le> 255 \<and> (255::nat) < 256
   \<and> normalize (qRgba 10 20 0 255) 255 \<le> normalize (qRgba 200 20 0 255) 255
   \<and> normalize (qRgba 10 20 0 255) 255 \<le> normalize (qRgba 10 30 0 255) 255
   \<and> normalize (qRgba 10 20 0 255) 255 \<le> normalize (qRgba 10 20 255 255) 255
   \<and> normalize (qRgba 0 0 0 255) 255 = 0
   \<and> normalize (qRgba 255 255 255 255) 255 = 255"
  using normalize_monotone [of 10 200 20 30 0 255 255] by simp

subsection \<open>The loop of getCharacters\<close>

text \<open>The state after \<open>i\<close> runs of the loop body.\<close>

lemma getCharacters_step_funpow:
  "(getCharacters_step ^^ i) (c, result)
     = (c + of_nat i, result @ map (\<lambda>k. c + of_nat k) [0..<i])"
  by (induction i) (simp_all add: getCharacters_step_def add.assoc)

text \<open>
  A loop whose condition holds for the first \<open>k\<close> states and fails for the next one exits
  there, after \<open>k\<close> runs of its body.
\<close>

lemma getCharacters_loop_exits:
  assumes "\<forall>i<k. getCharacters_cond to ((getCharacters_step ^^ i) s)"
    and "\<not> getCharacters_cond to ((getCharacters_step ^^ k) s)"
  shows "getCharacters_loop to s = Some ((getCharacters_step ^^ k) s)"
  using assms
proof (induction k arbitrary: s)
  case 0
  then show ?case
    by (subst getCharacters_loop.simps) simp
next
  case (Suc k)
  have first: "getCharacters_cond to s"
    using Suc.prems(1) by (metis funpow_0 zero_less_Suc)
  have "\<forall>i<k. getCharacters_cond to ((getCharacters_step ^^ i) (getCharacters_step s))"
  proof (intro allI impI)
    fix i assume "i < k"
    then have "Suc i < Suc k"
      by simp
    with Suc.prems(1) have "getCharacters_cond to ((getCharacters_step ^^ Suc i) s)"
      by blast
    then show "getCharacters_cond to ((getCharacters_step ^^ i) (getCharacters_step s))"
      by (simp add: funpow_swap1)
  qed
  moreover have "\<not> getCharacters_cond to ((getCharacters_step ^^ k) (getCharacters_step s))"
    using Suc.prems(2) by (simp add: funpow_swap1)
  ultimately have "getCharacters_loop to (getCharacters_step s)
      = Some ((getCharacters_step ^^ k) (getCharacters_step s))"
    by (rule Suc.IH)
  with first show ?case
    by (subst getCharacters_loop.simps) (simp add: funpow_swap1)
qed

text \<open>Every 8-bit counter is at most 255, so with \<open>to = 255\<close> the loop has no exit.\<close>

lemma unat_uint8_bound: "unat (w :: uint8_t) < 256"
  using unsigned_less [of w] by simp

lemma uint8_le_255: "(w :: uint8_t) \<le> 255"
  using unat_uint8_bound [of w] by (simp add: word_le_nat_alt)

lemma getCharacters_loop_Some_below_255:
  assumes "getCharacters_loop to s = Some r"
  shows "to \<noteq> 255"
  using assms
proof (induction rule: getCharacters_loop.raw_induct [rotated 1, consumes 1])
  case (1 loop to s r)
  show ?case
  proof (cases "getCharacters_cond to s")
    case True
    with 1 show ?thesis by simp
  next
    case False
    then have "\<not> fst s \<le> to"
      by (simp add: getCharacters_cond_def)
    then show ?thesis
      using uint8_le_255 [of "fst s"] by auto
  qed
qed

lemma getCharacters_loop_255: "getCharacters_loop 255 s = None"
  using getCharacters_loop_Some_below_255 [of 255 s]
  by (cases "getCharacters_loop 255 s") auto

lemma counter_in_range:
  fixes "from" to :: uint8_t
  assumes "from \<le> to" "i \<le> unat to - unat from"
  shows "unat (from + of_nat i) = unat from + i"
proof -
  have "unat from \<le> unat to"
    using assms(1) by (simp add: word_le_nat_alt)
  moreover have "unat to < 256"
    by (rule unat_uint8_bound)
  ultimately have "unat from + i < 256"
    using assms(2) by linarith
  then show ?thesis
    by (simp add: unat_word_ariths unat_of_nat)
qed

lemma getCharacters_cond_holds:
  assumes "from \<le> to" "i < unat to - unat from + 1"
  shows "getCharacters_cond to ((getCharacters_step ^^ i) (from, []))"
proof -
  have "i \<le> unat to - unat from"
    using assms(2) by linarith
  with assms(1) have "unat (from + of_nat i) = unat from + i"
    by (rule counter_in_range)
  moreover have "unat from \<le> unat to"
    using assms(1) by (simp add: word_le_nat_alt)
  ultimately have "unat (from + of_nat i) \<le> unat to"
    using assms(2) by linarith
  then show ?thesis
    by (simp add: getCharacters_cond_def getCharacters_step_funpow word_le_nat_alt)
qed

lemma getCharacters_cond_fails:
  assumes "from \<le> to" "to \<le> 254"
  shows "\<not> getCharacters_cond to ((getCharacters_step ^^ (unat to - unat from + 1)) (from, []))"
proof -
  define k where "k = unat to - unat from + 1"
  have le: "unat from \<le> unat to"
    using assms(1) by (simp add: word_le_nat_alt)
  have "unat to \<le> 254"
    using assms(2) by (simp add: word_le_nat_alt)
  then have "unat from + k < 256"
    using le by (simp add: k_def)
  then have "unat (from + of_nat k) = unat from + k"
    by (simp add: unat_word_ariths unat_of_nat)
  then have "unat to < unat (from + of_nat k)"
    using le by (simp add: k_def)
  then have "\<not> getCharacters_cond to ((getCharacters_step ^^ k) (from, []))"
    by (simp add: getCharacters_cond_def getCharacters_step_funpow word_le_nat_alt)
  then show ?thesis
    unfolding k_def .
qed

lemma getCharacters_below_255:
  assumes "from \<le> to" "to \<le> 254"
  shows "getCharacters from to = Some (map (\<lambda>k. from + of_nat k) [0..<unat to - unat from + 1])"
proof -
  define k where "k = unat to - unat from + 1"
  have "getCharacters_loop to (from, []) = Some ((getCharacters_step ^^ k) (from, []))"
    unfolding k_def using assms
    by (intro getCharacters_loop_exits allI impI getCharacters_cond_holds getCharacters_cond_fails)
  then have "getCharacters from to = Some (map (\<lambda>k. from + of_nat k) [0..<k])"
    by (simp add: getCharacters_def getCharacters_step_funpow)
  then show ?thesis
    by (simp only: k_def)
qed

lemma getCharacters_255: "getCharacters from 255 = None"
  by (simp add: getCharacters_def getCharacters_loop_255)

text \<open>
  Up to \<open>to = 254\<close> the string holds one character for each code of the closed interval,
  in ascending order.
\<close>

lemma getCharacters_codes:
  assumes "from \<le> to" "to \<le> 254"
  shows "\<exists>characters. getCharacters from to = Some characters
           \<and> map unat characters = [unat from..<unat to + 1]"
proof -
  have "map unat (map (\<lambda>k. from + of_nat k) [0..<unat to - unat from + 1])
      = map (\<lambda>k. unat from + k) [0..<unat to - unat from + 1]"
    using assms(1) by (auto intro: counter_in_range)
  also have "\<dots> = [unat from..<unat from + (unat to - unat from + 1)]"
    by (simp add: map_add_upt add.commute)
  also have "\<dots> = [unat from..<unat to + 1]"
    using assms(1) by (simp add: word_le_nat_alt)
  finally show ?thesis
    using assms by (simp add: getCharacters_below_255)
qed

text \<open>
  C9. For \<open>from \<le> to \<le> 254\<close> the loop of \<open>getCharacters\<close> exits after exactly
  \<open>to - from + 1\<close> runs of its body: its condition holds in each of the first
  \<open>to - from + 1\<close> states, fails in the next one, and the loop returns that state. The bound
  254 is needed: the counter is an 8-bit word, \<open>c \<le> 255\<close> holds for each of its values and
  the increment wraps from 255 to 0, so with \<open>to = 255\<close> the loop never exits.
\<close>

theorem getCharacters_terminates:
  assumes "from \<le> to" "to \<le> 254"
  shows "(\<forall>i < unat to - unat from + 1.
            getCharacters_cond to ((getCharacters_step ^^ i) (from, [])))
       \<and> \<not> getCharacters_cond to ((getCharacters_step ^^ (unat to - unat from + 1)) (from, []))
       \<and> getCharacters_loop to (from, [])
           = Some ((getCharacters_step ^^ (unat to - unat from + 1)) (from, []))
       \<and> (\<forall>s. getCharacters_cond 255 s)
       \<and> getCharacters_step (255, result) = (0, result @ [255])
       \<and> getCharacters_loop 255 (c, result) = None"
proof -
  have holds: "\<forall>i < unat to - unat from + 1.
      getCharacters_cond to ((getCharacters_step ^^ i) (from, []))"
    using assms(1) by (simp add: getCharacters_cond_holds)
  have fails: "\<not> getCharacters_cond to
      ((getCharacters_step ^^ (unat to - unat from + 1)) (from, []))"
    using assms by (rule getCharacters_cond_fails)
  have "getCharacters_loop to (from, [])
      = Some ((getCharacters_step ^^ (unat to - unat from + 1)) (from, []))"
    using holds fails by (rule getCharacters_loop_exits)
  moreover have "getCharacters_cond 255 s" for s
    by (simp add: getCharacters_cond_def uint8_le_255)
  moreover have "getCharacters_step (255, result) = (0, result @ [255])"
    by (simp add: getCharacters_step_def)
  ultimately show ?thesis
    using holds fails by (simp add: getCharacters_loop_255)
qed

theorem getCharacters_terminates_witness:
  "(65 :: uint8_t) \<le> 67 \<and> (67 :: uint8_t) \<le> 254
   \<and> getCharacters_cond 67 ((getCharacters_step ^^ 0) (65, []))
   \<and> getCharacters_cond 67 ((getCharacters_step ^^ 1) (65, []))
   \<and> getCharacters_cond 67 ((getCharacters_step ^^ 2) (65, []))
   \<and> \<not> getCharacters_cond 67 ((getCharacters_step ^^ 3) (65, []))
   \<and> getCharacters_loop 67 (65, []) = Some (68, [65, 66, 67])
   \<and> getCharacters_loop 255 (65, []) = None"
proof -
  have range: "(65 :: uint8_t) \<le> 67" "(67 :: uint8_t) \<le> 254"
    by simp_all
  have count: "unat (67 :: uint8_t) - unat (65 :: uint8_t) + 1 = 3"
    by simp
  have states:
    "(getCharacters_step ^^ 3) (65, []) = (68, [65, 66, 67])"
    by (simp add: eval_nat_numeral getCharacters_step_def)
  note run = getCharacters_terminates [OF range, of "[]" 65, unfolded count]
  from run have "\<forall>i < 3. getCharacters_cond 67 ((getCharacters_step ^^ i) (65, []))"
    by blast
  then have "getCharacters_cond 67 ((getCharacters_step ^^ 0) (65, []))"
    "getCharacters_cond 67 ((getCharacters_step ^^ 1) (65, []))"
    "getCharacters_cond 67 ((getCharacters_step ^^ 2) (65, []))"
    by (auto dest: spec [of _ 0] spec [of _ 1] spec [of _ 2])
  with range run show ?thesis
    unfolding states by blast
qed

subsection \<open>The program on given arguments\<close>

text \<open>The definitions that evaluate \<open>stoul\<close> on a given string.\<close>

lemmas stoul_eval = stoul_def isspace_def isdigit_def strip_sign_def has_sign_def
  is_negative_def decimal_value_def digit_value_def ULONG_MAX_def

lemma stoul_300: "stoul ''300'' = Inr 300"
  by (simp add: stoul_eval)

lemma stoul_10: "stoul ''10'' = Inr 10"
  by (simp add: stoul_eval)

lemma stoul_5: "stoul ''5'' = Inr 5"
  by (simp add: stoul_eval)

lemma stoul_plus_65: "stoul ''+65'' = Inr 65"
  by (simp add: stoul_eval)

lemma stoul_65: "stoul ''65'' = Inr 65"
  by (simp add: stoul_eval)

lemma stoul_255: "stoul ''255'' = Inr 255"
  by (simp add: stoul_eval)

lemma stoul_12: "stoul ''12'' = Inr 12"
  by (simp add: stoul_eval)

lemma stoul_Mono: "stoul ''Mono'' = Inl invalid_argument"
  by (simp add: stoul_eval)

lemma getCharacters_65_65: "getCharacters 65 65 = Some [65]"
  using getCharacters_below_255 [of 65 65] by simp

text \<open>
  A run of the program on one font name followed by two sizes, for any font engine.
\<close>

lemma main_two_sizes:
  "main e [''FontRenderer'', ''65'', ''65'', ''uint8_t'', ''font'', ''Mono'', ''10'', ''12'']
     = Some (Exit EXIT_SUCCESS
         (openFontArray ''uint8_t'' ''font''
          @ appendFontBitmap e [65] \<lparr>font_family = ''Mono'', font_pointSize = 10\<rparr>
              \<lparr>desc_name = ''Mono'', desc_size = 10, desc_from = 65, desc_to = 65\<rparr>
          @ appendFontBitmap e [65] \<lparr>font_family = ''Mono'', font_pointSize = 12\<rparr>
              \<lparr>desc_name = ''Mono'', desc_size = 12, desc_from = 65, desc_to = 65\<rparr>
          @ closeFontArray))"
  by (simp add: main_def main_after_parse_def coerce_uint8_def getCharacters_65_65
      process_token_def Let_def stoul_65 stoul_10 stoul_12 stoul_Mono)

lemma main_plus_sign:
  "main e [''FontRenderer'', ''+65'', ''65'', ''uint8_t'', ''font'', ''Mono'', ''10'']
     = Some (Exit EXIT_SUCCESS
         (openFontArray ''uint8_t'' ''font''
          @ appendFontBitmap e [65] \<lparr>font_family = ''Mono'', font_pointSize = 10\<rparr>
              \<lparr>desc_name = ''Mono'', desc_size = 10, desc_from = 65, desc_to = 65\<rparr>
          @ closeFontArray))"
  by (simp add: main_def main_after_parse_def coerce_uint8_def getCharacters_65_65
      process_token_def Let_def stoul_65 stoul_plus_65 stoul_10 stoul_Mono)

subsection \<open>What appendFontBitmap prints\<close>

text \<open>
  The text printed for one character is the serialization of its character bitmap, and the
  text printed for a font is the serialization of its font table up to the closing brace of
  the entry, followed by that brace on a line of its own.
\<close>

lemma appendFontBitmap_row_serialize:
  "appendFontBitmap_row e font pixmap base c width
     = (\<lambda>y. serialize_row (map (\<lambda>x. normalize (image_pixel e font pixmap base c x y) 255)
                                [0..width - 1]))"
  by (rule ext) (simp add: appendFontBitmap_row_def serialize_row_def comp_def)

lemma appendFontBitmap_char_serialize:
  "appendFontBitmap_char e font (metrics_maxWidth e font, metrics_height e font)
       (metrics_overlinePos e font - 1) (metrics_height e font)
     = (\<lambda>c. serialize_bitmap (characterBitmap e font c))"
  by (rule ext) (simp add: appendFontBitmap_char_def serialize_bitmap_def characterBitmap_def Let_def
      appendFontBitmap_row_serialize comp_def)

lemma appendFontBitmap_serialize:
  "appendFontBitmap e characters font desc
     = serialize_fields (fontTable e characters font desc) @ indent 1 @ ''}'' @ endl"
  by (simp add: appendFontBitmap_def serialize_fields_def fontTable_def Let_def
      appendFontBitmap_char_serialize comp_def)

lemma length_upto_from_0: "int (length [0..n - 1]) = max 0 n"
  by simp

lemma characterBitmap_rows:
  "cb_rows (characterBitmap e font c)
     = map (\<lambda>y. map (\<lambda>x. normalize (image_pixel e font
                                        (metrics_maxWidth e font, metrics_height e font)
                                        (metrics_overlinePos e font - 1) c x y) 255)
                    [0..metrics_width e font c - 1])
           [0..metrics_height e font - 1]"
  by (simp add: characterBitmap_def Let_def)

lemma characterBitmap_width: "cb_width (characterBitmap e font c) = metrics_width e font c"
  by (simp add: characterBitmap_def Let_def)

lemma upto_empty_0: "[0..(0::int) - 1] = []"
  by simp

text \<open>
  C8. When the font engine reports a line height and character widths that are not
  negative, the text \<open>appendFontBitmap\<close> prints is the serialization of a font table in which
  every character bitmap has exactly \<open>lineHeight\<close> rows and every row has exactly as many
  cells as the bitmap's own width; so any two bitmaps of the table have the same number of
  rows, whatever their widths. A character of width 0 has the bitmap of width 0 whose
  \<open>lineHeight\<close> rows are empty; there is no error value.
\<close>

theorem character_bitmap_dimensions:
  assumes "0 \<le> metrics_height e font"
    and "\<forall>c \<in> set characters. 0 \<le> metrics_width e font c"
  shows "appendFontBitmap e characters font desc
           = serialize_fields (fontTable e characters font desc) @ indent 1 @ ''}'' @ endl
       \<and> ft_bitmaps (fontTable e characters font desc) = map (characterBitmap e font) characters
       \<and> (\<forall>b \<in> set (ft_bitmaps (fontTable e characters font desc)).
            int (length (cb_rows b)) = ft_lineHeight (fontTable e characters font desc)
            \<and> (\<forall>row \<in> set (cb_rows b). int (length row) = cb_width b))
       \<and> (\<forall>c \<in> set characters. metrics_width e font c = 0 \<longrightarrow>
            characterBitmap e font c
              = \<lparr>cb_width = 0, cb_rows = replicate (nat (metrics_height e font)) []\<rparr>)"
proof (intro conjI ballI impI)
  show "appendFontBitmap e characters font desc
      = serialize_fields (fontTable e characters font desc) @ indent 1 @ ''}'' @ endl"
    by (rule appendFontBitmap_serialize)
  show "ft_bitmaps (fontTable e characters font desc) = map (characterBitmap e font) characters"
    by (simp add: fontTable_def)
next
  fix b assume "b \<in> set (ft_bitmaps (fontTable e characters font desc))"
  then obtain c where c: "c \<in> set characters" "b = characterBitmap e font c"
    by (auto simp: fontTable_def)
  show "int (length (cb_rows b)) = ft_lineHeight (fontTable e characters font desc)"
    using assms(1) by (simp add: c characterBitmap_rows fontTable_def)
  fix row assume "row \<in> set (cb_rows b)"
  then have "length row = length [0..metrics_width e font c - 1]"
    by (auto simp: c characterBitmap_rows)
  moreover have "0 \<le> metrics_width e font c"
    using assms(2) c(1) by blast
  ultimately show "int (length row) = cb_width b"
    by (simp add: c characterBitmap_width)
next
  fix c assume "c \<in> set characters" "metrics_width e font c = 0"
  then show "characterBitmap e font c
      = \<lparr>cb_width = 0, cb_rows = replicate (nat (metrics_height e font)) []\<rparr>"
    using assms(1) by (simp add: characterBitmap_def Let_def map_replicate_const)
qed

theorem character_bitmap_dimensions_witness:
  "0 \<le> metrics_height sample_engine \<lparr>font_family = ''Mono'', font_pointSize = 10\<rparr>
   \<and> 0 \<le> metrics_width sample_engine \<lparr>font_family = ''Mono'', font_pointSize = 10\<rparr> 65
   \<and> 0 \<le> metrics_width sample_engine \<lparr>font_family = ''Mono'', font_pointSize = 10\<rparr> 66
   \<and> 0 \<le> metrics_width sample_engine \<lparr>font_family = ''Mono'', font_pointSize = 10\<rparr> 67
   \<and> appendFontBitmap sample_engine [65, 66, 67]
         \<lparr>font_family = ''Mono'', font_pointSize = 10\<rparr>
         \<lparr>desc_name = ''Mono'', desc_size = 10, desc_from = 65, desc_to = 67\<rparr>
       = serialize_fields
           \<lparr>ft_name = ''Mono'', ft_size = 10, ft_lineHeight = 2, ft_from = 65, ft_to = 67,
            ft_bitmaps = [\<lparr>cb_width = 2, cb_rows = [[255, 0], [0, 255]]\<rparr>,
                          \<lparr>cb_width = 0, cb_rows = [[], []]\<rparr>,
                          \<lparr>cb_width = 1, cb_rows = [[255], [0]]\<rparr>]\<rparr>
         @ indent 1 @ ''}'' @ endl
   \<and> characterBitmap sample_engine \<lparr>font_family = ''Mono'', font_pointSize = 10\<rparr> 66
       = \<lparr>cb_width = 0, cb_rows = replicate (nat 2) []\<rparr>"
proof -
  let ?font = "\<lparr>font_family = ''Mono'', font_pointSize = 10\<rparr>"
  let ?desc = "\<lparr>desc_name = ''Mono'', desc_size = 10, desc_from = 65, desc_to = 67\<rparr>"
  have height: "0 \<le> metrics_height sample_engine ?font"
    by (simp add: sample_engine_def)
  have widths: "\<forall>c \<in> set [65, 66, 67]. 0 \<le> metrics_width sample_engine ?font c"
    by (simp add: sample_engine_def)
  have upto: "[0..1] = [0, 1::int]"
    by (simp add: upto.simps)
  have pixels: "normalize (qRgba 255 255 255 255) 255 = 255" "normalize (qRgba 0 0 0 255) 255 = 0"
    by (simp_all add: normalize_255)
  have bitmaps:
    "characterBitmap sample_engine ?font 65 = \<lparr>cb_width = 2, cb_rows = [[255, 0], [0, 255]]\<rparr>"
    "characterBitmap sample_engine ?font 66 = \<lparr>cb_width = 0, cb_rows = [[], []]\<rparr>"
    "characterBitmap sample_engine ?font 67 = \<lparr>cb_width = 1, cb_rows = [[255], [0]]\<rparr>"
    by (simp_all add: characterBitmap_def sample_engine_def upto pixels)
  have table:
    "fontTable sample_engine [65, 66, 67] ?font ?desc
       = \<lparr>ft_name = ''Mono'', ft_size = 10, ft_lineHeight = 2, ft_from = 65, ft_to = 67,
          ft_bitmaps = [\<lparr>cb_width = 2, cb_rows = [[255, 0], [0, 255]]\<rparr>,
                        \<lparr>cb_width = 0, cb_rows = [[], []]\<rparr>,
                        \<lparr>cb_width = 1, cb_rows = [[255], [0]]\<rparr>]\<rparr>"
    by (simp add: fontTable_def bitmaps) (simp add: sample_engine_def)
  have zero: "metrics_width sample_engine ?font 66 = 0" "metrics_height sample_engine ?font = 2"
    by (simp_all add: sample_engine_def)
  have member: "66 \<in> set [65, 66, 67 :: uint8_t]"
    by simp
  note dims = character_bitmap_dimensions [OF height widths, of ?desc]
  have printed: "appendFontBitmap sample_engine [65, 66, 67] ?font ?desc
      = serialize_fields (fontTable sample_engine [65, 66, 67] ?font ?desc)
        @ indent 1 @ ''}'' @ endl"
    by (rule dims [THEN conjunct1])
  have "characterBitmap sample_engine ?font 66
      = \<lparr>cb_width = 0, cb_rows = replicate (nat (metrics_height sample_engine ?font)) []\<rparr>"
    by (rule dims [THEN conjunct2, THEN conjunct2, THEN conjunct2, THEN bspec, THEN mp,
          OF member zero(1)])
  then have empty: "characterBitmap sample_engine ?font 66
      = \<lparr>cb_width = 0, cb_rows = replicate (nat 2) []\<rparr>"
    unfolding zero(2) .
  from height widths printed empty show ?thesis
    unfolding table by simp
qed

subsection \<open>C5 and C6: the exits of main before any output\<close>

lemma unat_coerce_uint8: "unat (coerce_uint8 v) = (if 255 < unat v then 0 else unat v)"
proof (cases "v \<le> 255")
  case True
  then have "unat v \<le> 255"
    by (simp add: word_le_nat_alt)
  then have "unat (ucast v :: uint8_t) = unat v"
    by (simp add: unsigned_ucast_eq take_bit_nat_eq_self)
  with True \<open>unat v \<le> 255\<close> show ?thesis
    by (simp add: coerce_uint8_def)
next
  case False
  then have "255 < unat v"
    by (simp add: word_le_nat_alt)
  with False show ?thesis
    by (simp add: coerce_uint8_def)
qed

text \<open>
  C5. The two range arguments are parsed by \<open>stoul\<close> as unsigned numbers, and each parsed
  value is coerced to 8 bits: a value above 255 becomes 0, any other value is kept. Whenever
  the coerced \<open>from\<close> exceeds the coerced \<open>to\<close>, \<open>main\<close> returns the failure status
  (which is not 0) and has printed nothing at all.
\<close>

theorem main_invalid_range:
  assumes "7 \<le> length argv"
    and "stoul (argv ! 1) = Inr from" and "stoul (argv ! 2) = Inr to"
  shows "unat (coerce_uint8 from) = (if 255 < unat from then 0 else unat from)
       \<and> unat (coerce_uint8 to) = (if 255 < unat to then 0 else unat to)
       \<and> (coerce_uint8 to < coerce_uint8 from \<longrightarrow>
            main e argv = Some (Exit EXIT_FAILURE []) \<and> EXIT_FAILURE \<noteq> 0)"
  using assms
  by (simp add: unat_coerce_uint8 main_def main_after_parse_def EXIT_FAILURE_def)

theorem main_invalid_range_witness:
  "7 \<le> length [''FontRenderer'', ''10'', ''5'', ''uint8_t'', ''font'', ''Mono'', ''10'']
   \<and> stoul ''10'' = Inr 10 \<and> stoul ''5'' = Inr 5
   \<and> coerce_uint8 5 < coerce_uint8 10
   \<and> main sample_engine [''FontRenderer'', ''10'', ''5'', ''uint8_t'', ''font'', ''Mono'', ''10'']
       = Some (Exit 1 [])
   \<and> stoul ''300'' = Inr 300 \<and> coerce_uint8 300 = 0"
  using main_invalid_range [of "[''FontRenderer'', ''10'', ''5'', ''uint8_t'', ''font'', ''Mono'', ''10'']"
      10 5 sample_engine]
  by (simp add: stoul_10 stoul_5 stoul_300 coerce_uint8_def EXIT_FAILURE_def)

text \<open>
  C6. Whenever fewer than 7 tokens, the program name included, are supplied, \<open>main\<close>
  returns the failure status (which is not 0), and the usage message is all it has printed:
  no part of the array literal.
\<close>

theorem main_usage:
  assumes "argv \<noteq> []" and "length argv < 7"
  shows "main e argv = Some (Exit EXIT_FAILURE (usage (hd argv))) \<and> EXIT_FAILURE \<noteq> 0"
  using assms by (cases argv) (simp_all add: main_def EXIT_FAILURE_def)

theorem main_usage_witness:
  "[''FontRenderer'', ''65'', ''67'', ''uint8_t''] \<noteq> []
   \<and> length [''FontRenderer'', ''65'', ''67'', ''uint8_t''] < 7
   \<and> main sample_engine [''FontRenderer'', ''65'', ''67'', ''uint8_t'']
       = Some (Exit 1 (''Basic usage: FontRenderer [ascii-from] [ascii-to] ''
                       @ ''[cpp-type] [arr-name] [[font-name] [font-size] ..]'' @ endl))"
  using main_usage [of "[''FontRenderer'', ''65'', ''67'', ''uint8_t'']" sample_engine]
  by (simp add: usage_def EXIT_FAILURE_def)

subsection \<open>C10: the two parses outside every try block\<close>

lemma isdigit_not_space_or_sign:
  assumes "isdigit ch"
  shows "\<not> isspace ch" and "ch \<noteq> CHR ''-''" and "ch \<noteq> CHR ''+''"
  using assms by (auto simp: isdigit_def isspace_def)

lemma begins_with_numeral_imp:
  assumes "begins_with_numeral s"
  shows "numeral_after_space_and_sign s"
proof -
  from assms obtain ch rest where s: "s = ch # rest" and "isdigit ch"
    by (cases s) (auto simp: begins_with_numeral_def split: if_splits)
  then have "dropWhile isspace s = s" "\<not> has_sign s"
    using isdigit_not_space_or_sign [of ch] by (simp_all add: has_sign_def)
  with assms show ?thesis
    by (simp add: numeral_after_space_and_sign_def strip_sign_def)
qed

lemma stoul_accepts:
  assumes "numeral_after_space_and_sign s"
  shows "\<exists>v. stoul s = Inr v"
  using assms
  by (simp add: numeral_after_space_and_sign_def begins_with_numeral_def stoul_def Let_def)

lemma stoul_throws:
  assumes "\<not> numeral_after_space_and_sign s"
  shows "\<exists>ex. stoul s = Inl ex"
  using assms
  by (auto simp: numeral_after_space_and_sign_def begins_with_numeral_def stoul_def Let_def)

lemma main_reaches_range_check:
  assumes "7 \<le> length argv"
    and "numeral_after_space_and_sign (argv ! 1)" and "numeral_after_space_and_sign (argv ! 2)"
  shows "\<exists>from to. stoul (argv ! 1) = Inr from \<and> stoul (argv ! 2) = Inr to
           \<and> main e argv = main_after_parse e argv from to"
proof -
  from assms(2) obtain "from" where "stoul (argv ! 1) = Inr from"
    using stoul_accepts by blast
  moreover from assms(3) obtain to where "stoul (argv ! 2) = Inr to"
    using stoul_accepts by blast
  ultimately show ?thesis
    using assms(1) by (simp add: main_def)
qed

lemma main_parse_throws:
  assumes "7 \<le> length argv"
    and "\<not> (numeral_after_space_and_sign (argv ! 1) \<and> numeral_after_space_and_sign (argv ! 2))"
  shows "\<exists>ex. main e argv = Some (Uncaught ex [])"
proof (cases "numeral_after_space_and_sign (argv ! 1)")
  case False
  then obtain ex where "stoul (argv ! 1) = Inl ex"
    using stoul_throws by blast
  then show ?thesis
    using assms(1) by (simp add: main_def)
next
  case True
  then obtain "from" where "stoul (argv ! 1) = Inr from"
    using stoul_accepts by blast
  moreover from True assms(2) obtain ex where "stoul (argv ! 2) = Inl ex"
    using stoul_throws by blast
  ultimately show ?thesis
    using assms(1) by (simp add: main_def)
qed

text \<open>
  C10, amended. With at least 7 arguments, the parses of \<open>argv[1]\<close> and \<open>argv[2]\<close>
  are outside every \<open>try\<close> block. If each of the two strings, after optional leading
  white space and one optional sign, begins with a decimal numeral within the range of
  \<^verbatim>\<open>unsigned long\<close> (in particular if it begins with such a numeral), both parses return
  and \<open>main\<close> goes on with the range check. Otherwise a parse throws an exception that
  nothing catches: the run ends with neither the usage message nor any other output.
\<close>

theorem main_parses_unguarded:
  assumes "7 \<le> length argv"
  shows "(begins_with_numeral (argv ! 1) \<and> begins_with_numeral (argv ! 2) \<longrightarrow>
            (\<exists>from to. stoul (argv ! 1) = Inr from \<and> stoul (argv ! 2) = Inr to
               \<and> main e argv = main_after_parse e argv from to))
       \<and> (numeral_after_space_and_sign (argv ! 1) \<and> numeral_after_space_and_sign (argv ! 2) \<longrightarrow>
            (\<exists>from to. stoul (argv ! 1) = Inr from \<and> stoul (argv ! 2) = Inr to
               \<and> main e argv = main_after_parse e argv from to))
       \<and> (\<not> (numeral_after_space_and_sign (argv ! 1) \<and> numeral_after_space_and_sign (argv ! 2)) \<longrightarrow>
            (\<exists>ex. main e argv = Some (Uncaught ex [])))"
  using assms main_reaches_range_check [of argv e] main_parse_throws [of argv e]
    begins_with_numeral_imp
  by blast

theorem main_parses_unguarded_witness:
  "7 \<le> length [''FontRenderer'', '' +65'', ''67abc'', ''uint8_t'', ''font'', ''Mono'', ''10'']
   \<and> numeral_after_space_and_sign '' +65''
   \<and> numeral_after_space_and_sign ''67abc''
   \<and> stoul '' +65'' = Inr 65
   \<and> stoul ''67abc'' = Inr 67
   \<and> main sample_engine [''FontRenderer'', '' +65'', ''67abc'', ''uint8_t'', ''font'', ''Mono'', ''10'']
       = main_after_parse sample_engine
           [''FontRenderer'', '' +65'', ''67abc'', ''uint8_t'', ''font'', ''Mono'', ''10''] 65 67
   \<and> \<not> numeral_after_space_and_sign ''x65''
   \<and> (\<exists>ex. main sample_engine [''FontRenderer'', ''x65'', ''67'', ''uint8_t'', ''font'', ''Mono'', ''10'']
             = Some (Uncaught ex []))"
proof -
  let ?good = "[''FontRenderer'', '' +65'', ''67abc'', ''uint8_t'', ''font'', ''Mono'', ''10'']"
  let ?bad = "[''FontRenderer'', ''x65'', ''67'', ''uint8_t'', ''font'', ''Mono'', ''10'']"
  have len: "7 \<le> length ?good" "7 \<le> length ?bad"
    by simp_all
  have nth: "?good ! 1 = '' +65''" "?good ! 2 = ''67abc''" "?bad ! 1 = ''x65''"
    by simp_all
  have accepted: "numeral_after_space_and_sign '' +65''" "numeral_after_space_and_sign ''67abc''"
    by (simp_all add: numeral_after_space_and_sign_def begins_with_numeral_def stoul_eval)
  have rejected: "\<not> numeral_after_space_and_sign ''x65''"
    by (simp add: numeral_after_space_and_sign_def begins_with_numeral_def stoul_eval)
  have parsed: "stoul '' +65'' = Inr 65" "stoul ''67abc'' = Inr 67"
    by (simp_all add: stoul_eval)
  from main_parses_unguarded [OF len(1), of sample_engine] accepted
  have "\<exists>from to. stoul '' +65'' = Inr from \<and> stoul ''67abc'' = Inr to
          \<and> main sample_engine ?good = main_after_parse sample_engine ?good from to"
    unfolding nth by blast
  then have reached: "main sample_engine ?good = main_after_parse sample_engine ?good 65 67"
    unfolding parsed by simp
  from main_parses_unguarded [OF len(2), of sample_engine] rejected
  have "\<exists>ex. main sample_engine ?bad = Some (Uncaught ex [])"
    unfolding nth by blast
  with len(1) accepted parsed reached rejected show ?thesis
    by blast
qed

text \<open>
  C10 as stated fails: \<open>+65\<close> does not begin with a decimal numeral, and yet the parse
  returns 65, no exception escapes, and the run goes through the range check and prints
  the array.
\<close>

theorem main_parses_unguarded_counterexample:
  "\<not> begins_with_numeral ''+65''
   \<and> stoul ''+65'' = Inr 65
   \<and> main sample_engine [''FontRenderer'', ''+65'', ''65'', ''uint8_t'', ''font'', ''Mono'', ''10'']
       = Some (Exit EXIT_SUCCESS
           (openFontArray ''uint8_t'' ''font''
            @ appendFontBitmap sample_engine [65] \<lparr>font_family = ''Mono'', font_pointSize = 10\<rparr>
                \<lparr>desc_name = ''Mono'', desc_size = 10, desc_from = 65, desc_to = 65\<rparr>
            @ closeFontArray))"
  by (simp add: main_plus_sign stoul_plus_65) (simp add: begins_with_numeral_def isdigit_def)

subsection \<open>C1: the character range\<close>

text \<open>
  C1 holds up to \<open>to = 254\<close>: the string of characters has one character for each code
  of the range, in ascending order, each character gets one bitmap, in that order, and the
  range fields are those of the descriptor.
\<close>

lemma fontTable_range_below_255:
  assumes "from \<le> to" "to \<le> 254"
  shows "\<exists>characters. getCharacters from to = Some characters
           \<and> map unat characters = [unat from..<unat to + 1]
           \<and> length (ft_bitmaps (fontTable e characters font desc)) = unat to - unat from + 1
           \<and> ft_bitmaps (fontTable e characters font desc) = map (characterBitmap e font) characters
           \<and> ft_from (fontTable e characters font desc) = uint (desc_from desc)
           \<and> ft_to (fontTable e characters font desc) = uint (desc_to desc)"
proof -
  from assms obtain characters where c: "getCharacters from to = Some characters"
    "map unat characters = [unat from..<unat to + 1]"
    using getCharacters_codes by blast
  from c(2) have "length characters = length [unat from..<unat to + 1]"
    by (metis length_map)
  then have "length characters = unat to - unat from + 1"
    using assms(1) by (simp add: word_le_nat_alt)
  with c show ?thesis
    by (simp add: fontTable_def)
qed

text \<open>
  C1 at \<open>from = 65\<close>, \<open>to = 255\<close>, a valid invocation: the loop of \<open>getCharacters\<close>
  never exits, so the run has no outcome and no font table is ever printed.
\<close>

theorem main_range_to_255:
  "main e [''FontRenderer'', ''65'', ''255'', ''uint8_t'', ''font'', ''Mono'', ''10''] = None"
  by (simp add: main_def main_after_parse_def coerce_uint8_def getCharacters_255
      stoul_65 stoul_255)

subsection \<open>C4: the text of a font table entry\<close>

lemma appendFontBitmap_no_comma:
  "appendFontBitmap e characters font desc
     = serialize_no_comma (fontTable e characters font desc)"
  by (simp add: appendFontBitmap_serialize serialize_no_comma_def)

lemma serialize_no_comma_neq: "serialize_no_comma t \<noteq> serialize t"
  by (simp add: serialize_no_comma_def serialize_def endl_def)

text \<open>
  C4 on one font name and two sizes. The fields of each entry are printed in the fixed
  order, as \<open>serialize_fields\<close> writes them, but the closing brace of an entry is followed
  by the end of the line and not by a comma: the two entries are not separated, and what
  is printed for a font table is never the entry of the grammar.
\<close>

theorem main_entries_without_comma:
  "main e [''FontRenderer'', ''65'', ''65'', ''uint8_t'', ''font'', ''Mono'', ''10'', ''12'']
     = Some (Exit EXIT_SUCCESS
         (openFontArray ''uint8_t'' ''font''
          @ (serialize_fields (specified_table e [65] ''Mono'' 10 65 65) @ indent 1 @ ''}'' @ endl)
          @ (serialize_fields (specified_table e [65] ''Mono'' 12 65 65) @ indent 1 @ ''}'' @ endl)
          @ closeFontArray))
   \<and> serialize (specified_table e [65] ''Mono'' 10 65 65)
       = serialize_fields (specified_table e [65] ''Mono'' 10 65 65) @ indent 1 @ ''},'' @ endl
   \<and> appendFontBitmap e characters font desc \<noteq> serialize (fontTable e characters font desc)"
proof -
  have "fontTable e [65] \<lparr>font_family = ''Mono'', font_pointSize = 10\<rparr>
          \<lparr>desc_name = ''Mono'', desc_size = 10, desc_from = 65, desc_to = 65\<rparr>
      = specified_table e [65] ''Mono'' 10 65 65"
    and "fontTable e [65] \<lparr>font_family = ''Mono'', font_pointSize = 12\<rparr>
          \<lparr>desc_name = ''Mono'', desc_size = 12, desc_from = 65, desc_to = 65\<rparr>
      = specified_table e [65] ''Mono'' 12 65 65"
    by (simp_all add: fontTable_def specified_table_def)
  then show ?thesis
    by (simp add: main_two_sizes appendFontBitmap_serialize serialize_def
        appendFontBitmap_no_comma serialize_no_comma_neq)
qed

subsection \<open>C2: the sequencer\<close>

lemma process_token_name:
  assumes "stoul token = Inl invalid_argument"
  shows "process_token e characters desc token = Inr (desc\<lparr>desc_name := token\<rparr>, [])"
  using assms by (simp add: process_token_def)

lemma process_token_no_name:
  assumes "stoul token = Inr number" and "desc_name desc = []"
  shows "process_token e characters desc token = Inr (desc\<lparr>desc_size := ucast number\<rparr>, [])"
  using assms by (simp add: process_token_def)

lemma process_token_out_of_range:
  assumes "stoul token = Inl out_of_range"
  shows "process_token e characters desc token = Inl out_of_range"
  using assms by (simp add: process_token_def)

text \<open>
  With a font name recorded, a size token prints the entry of the font table for that name
  and for the size as the \<^verbatim>\<open>int\<close> field \<^verbatim>\<open>desc.size\<close> holds it: the parsed number cut
  to 32 bits and read as two's complement.
\<close>

lemma process_token_size:
  assumes "stoul token = Inr number" and "desc_name desc \<noteq> []"
  shows "process_token e characters desc token
     = Inr (desc\<lparr>desc_size := ucast number\<rparr>,
            serialize_no_comma
              (specified_table e characters (desc_name desc) (sint (ucast number :: cint))
                 (uint (desc_from desc)) (uint (desc_to desc))))"
  using assms
  by (simp add: process_token_def Let_def appendFontBitmap_no_comma fontTable_def
      specified_table_def)

lemma sint_ucast_in_range:
  fixes number :: ulong
  assumes "number \<le> 2147483647"
  shows "sint (ucast number :: cint) = uint number"
proof -
  have upper: "uint number < 2 ^ 31"
    using assms by (simp add: word_le_def)
  have lower: "- (2 ^ 31) \<le> uint number"
    by (rule order_trans [OF _ unsigned_greater_eq]) simp
  have "uint (ucast number :: cint) = take_bit 32 (uint number)"
    by (simp add: unsigned_ucast_eq)
  also have "\<dots> = uint number"
    by (rule take_bit_int_eq_self) (use upper in simp_all)
  finally have "sint (ucast number :: cint) = signed_take_bit 31 (uint number)"
    by (simp add: sint_uint)
  also have "\<dots> = uint number"
    by (rule signed_take_bit_int_eq_self [OF lower upper])
  finally show ?thesis .
qed

lemma main_loop_sizes:
  assumes "desc_name desc \<noteq> []"
    and "\<forall>token \<in> set sizes.
           \<exists>number. stoul token = Inr number \<and> 0 < number \<and> number \<le> 2147483647"
  shows "main_loop e characters desc sizes out
     = Inr (out @ concat (map (\<lambda>token. case stoul token of
                Inr number \<Rightarrow>
                  serialize_no_comma
                    (specified_table e characters (desc_name desc) (uint number)
                       (uint (desc_from desc)) (uint (desc_to desc)))
              | Inl ex \<Rightarrow> []) sizes))"
  using assms
proof (induction sizes arbitrary: desc out)
  case Nil
  then show ?case by simp
next
  case (Cons token sizes)
  from Cons.prems(2) obtain number
    where number: "stoul token = Inr number" "number \<le> 2147483647"
    by auto
  let ?desc = "desc\<lparr>desc_size := ucast number\<rparr>"
  let ?text = "serialize_no_comma
      (specified_table e characters (desc_name desc) (uint number)
         (uint (desc_from desc)) (uint (desc_to desc)))"
  have step: "process_token e characters desc token = Inr (?desc, ?text)"
    using process_token_size [OF number(1) Cons.prems(1)] sint_ucast_in_range [OF number(2)]
    by simp
  have "main_loop e characters ?desc sizes (out @ ?text)
      = Inr ((out @ ?text) @ concat (map (\<lambda>token. case stoul token of
                Inr number \<Rightarrow>
                  serialize_no_comma
                    (specified_table e characters (desc_name desc) (uint number)
                       (uint (desc_from desc)) (uint (desc_to desc)))
              | Inl ex \<Rightarrow> []) sizes))"
    using Cons.IH [of ?desc "out @ ?text"] Cons.prems by (simp cong: sum.case_cong)
  then show ?case
    by (simp add: step number(1))
qed

text \<open>
  C2, amended. For the tokens after the first four arguments, processed from left to right:
  a token in which \<open>stoul\<close> finds no numeral becomes the current font name, replaces any
  previous name and prints nothing; a token that parses as a positive number while the
  recorded font name is empty prints nothing; a token that parses as a positive number not
  above \<open>2\<^sup>3\<^sup>1 - 1\<close>, the largest \<^verbatim>\<open>int\<close>, while a font name that is not empty is
  recorded, prints exactly one font table entry, with that name and that size, and keeps
  the name; so a name followed by such size tokens prints one entry for each of them, in
  their order, all with that name.
\<close>

theorem sequencer_tokens:
  "(stoul token = Inl invalid_argument \<longrightarrow>
      process_token e characters desc token = Inr (desc\<lparr>desc_name := token\<rparr>, []))
   \<and> (stoul token = Inr number \<and> 0 < number \<and> desc_name desc = [] \<longrightarrow>
      process_token e characters desc token = Inr (desc\<lparr>desc_size := ucast number\<rparr>, []))
   \<and> (stoul token = Inr number \<and> 0 < number \<and> number \<le> 2147483647 \<and> desc_name desc \<noteq> [] \<longrightarrow>
      process_token e characters desc token
        = Inr (desc\<lparr>desc_size := ucast number\<rparr>,
               serialize_no_comma
                 (specified_table e characters (desc_name desc) (uint number)
                    (uint (desc_from desc)) (uint (desc_to desc)))))
   \<and> main_loop e characters desc (token # rest) out
       = (case process_token e characters desc token of
            Inl ex \<Rightarrow> Inl (ex, out)
          | Inr (desc', text) \<Rightarrow> main_loop e characters desc' rest (out @ text))
   \<and> (stoul name = Inl invalid_argument \<and> name \<noteq> []
        \<and> (\<forall>token \<in> set sizes.
              \<exists>number. stoul token = Inr number \<and> 0 < number \<and> number \<le> 2147483647) \<longrightarrow>
      main_loop e characters desc (name # sizes) out
        = Inr (out @ concat (map (\<lambda>token. case stoul token of
                   Inr number \<Rightarrow>
                     serialize_no_comma
                       (specified_table e characters name (uint number)
                          (uint (desc_from desc)) (uint (desc_to desc)))
                 | Inl ex \<Rightarrow> []) sizes)))"
proof (intro conjI impI)
  show "process_token e characters desc token = Inr (desc\<lparr>desc_name := token\<rparr>, [])"
    if "stoul token = Inl invalid_argument"
    using that by (rule process_token_name)
  show "process_token e characters desc token = Inr (desc\<lparr>desc_size := ucast number\<rparr>, [])"
    if "stoul token = Inr number \<and> 0 < number \<and> desc_name desc = []"
    using that by (simp add: process_token_no_name)
  show "process_token e characters desc token
      = Inr (desc\<lparr>desc_size := ucast number\<rparr>,
             serialize_no_comma
               (specified_table e characters (desc_name desc) (uint number)
                  (uint (desc_from desc)) (uint (desc_to desc))))"
    if "stoul token = Inr number \<and> 0 < number \<and> number \<le> 2147483647 \<and> desc_name desc \<noteq> []"
    using that by (simp add: process_token_size sint_ucast_in_range)
  show "main_loop e characters desc (token # rest) out
      = (case process_token e characters desc token of
           Inl ex \<Rightarrow> Inl (ex, out)
         | Inr (desc', text) \<Rightarrow> main_loop e characters desc' rest (out @ text))"
    by simp
  show "main_loop e characters desc (name # sizes) out
      = Inr (out @ concat (map (\<lambda>token. case stoul token of
                 Inr number \<Rightarrow>
                   serialize_no_comma
                     (specified_table e characters name (uint number)
                        (uint (desc_from desc)) (uint (desc_to desc)))
               | Inl ex \<Rightarrow> []) sizes))"
    if "stoul name = Inl invalid_argument \<and> name \<noteq> []
        \<and> (\<forall>token \<in> set sizes.
              \<exists>number. stoul token = Inr number \<and> 0 < number \<and> number \<le> 2147483647)"
  proof -
    have "main_loop e characters desc (name # sizes) out
        = main_loop e characters (desc\<lparr>desc_name := name\<rparr>) sizes out"
      using that by (simp add: process_token_name)
    also have "\<dots> = Inr (out @ concat (map (\<lambda>token. case stoul token of
                 Inr number \<Rightarrow>
                   serialize_no_comma
                     (specified_table e characters (desc_name (desc\<lparr>desc_name := name\<rparr>))
                        (uint number) (uint (desc_from (desc\<lparr>desc_name := name\<rparr>)))
                        (uint (desc_to (desc\<lparr>desc_name := name\<rparr>))))
               | Inl ex \<Rightarrow> []) sizes))"
      using that by (intro main_loop_sizes) simp_all
    finally show ?thesis
      by (simp cong: sum.case_cong)
  qed
qed

theorem sequencer_tokens_witness:
  "stoul ''Mono'' = Inl invalid_argument
   \<and> process_token sample_engine [65]
         \<lparr>desc_name = ''Sans'', desc_size = 0, desc_from = 65, desc_to = 65\<rparr> ''Mono''
       = Inr (\<lparr>desc_name = ''Mono'', desc_size = 0, desc_from = 65, desc_to = 65\<rparr>, [])
   \<and> stoul ''10'' = Inr 10 \<and> (0 :: ulong) < 10 \<and> (10 :: ulong) \<le> 2147483647
   \<and> process_token sample_engine [65]
         \<lparr>desc_name = [], desc_size = 0, desc_from = 65, desc_to = 65\<rparr> ''10''
       = Inr (\<lparr>desc_name = [], desc_size = 10, desc_from = 65, desc_to = 65\<rparr>, [])
   \<and> process_token sample_engine [65]
         \<lparr>desc_name = ''Mono'', desc_size = 0, desc_from = 65, desc_to = 65\<rparr> ''10''
       = Inr (\<lparr>desc_name = ''Mono'', desc_size = 10, desc_from = 65, desc_to = 65\<rparr>,
              serialize_no_comma (specified_table sample_engine [65] ''Mono'' 10 65 65))
   \<and> stoul ''12'' = Inr 12 \<and> (0 :: ulong) < 12 \<and> (12 :: ulong) \<le> 2147483647
   \<and> main_loop sample_engine [65]
         \<lparr>desc_name = [], desc_size = 0, desc_from = 65, desc_to = 65\<rparr>
         [''Mono'', ''10'', ''12''] []
       = Inr (serialize_no_comma (specified_table sample_engine [65] ''Mono'' 10 65 65)
              @ serialize_no_comma (specified_table sample_engine [65] ''Mono'' 12 65 65))"
proof -
  let ?none = "\<lparr>desc_name = [], desc_size = 0, desc_from = 65, desc_to = 65\<rparr>"
  let ?sans = "\<lparr>desc_name = ''Sans'', desc_size = 0, desc_from = 65, desc_to = 65\<rparr>"
  let ?mono = "\<lparr>desc_name = ''Mono'', desc_size = 0, desc_from = 65, desc_to = 65\<rparr>"
  have sizes: "\<forall>token \<in> set [''10'', ''12''].
      \<exists>number. stoul token = Inr number \<and> 0 < number \<and> number \<le> 2147483647"
    by (simp add: stoul_10 stoul_12)
  have name: "process_token sample_engine [65] ?sans ''Mono'' = Inr (?sans\<lparr>desc_name := ''Mono''\<rparr>, [])"
    using sequencer_tokens [where token = "''Mono''" and e = sample_engine and characters = "[65]"
        and desc = ?sans]
    by (simp add: stoul_Mono)
  have ignored: "process_token sample_engine [65] ?none ''10'' = Inr (?none\<lparr>desc_size := ucast (10 :: ulong)\<rparr>, [])"
    using sequencer_tokens [where token = "''10''" and number = 10 and e = sample_engine
        and characters = "[65]" and desc = ?none]
    by (simp add: stoul_10)
  have table: "process_token sample_engine [65] ?mono ''10''
      = Inr (?mono\<lparr>desc_size := ucast (10 :: ulong)\<rparr>,
             serialize_no_comma (specified_table sample_engine [65] ''Mono'' 10 65 65))"
    using sequencer_tokens [where token = "''10''" and number = 10 and e = sample_engine
        and characters = "[65]" and desc = ?mono]
    by (simp add: stoul_10)
  have after_name: "stoul ''Mono'' = Inl invalid_argument \<and> ''Mono'' \<noteq> []
      \<and> (\<forall>token \<in> set [''10'', ''12''].
            \<exists>number. stoul token = Inr number \<and> 0 < number \<and> number \<le> 2147483647)"
    using sizes by (simp add: stoul_Mono)
  have "main_loop sample_engine [65] ?none (''Mono'' # [''10'', ''12'']) []
      = Inr ([] @ concat (map (\<lambda>token. case stoul token of
                 Inr number \<Rightarrow>
                   serialize_no_comma
                     (specified_table sample_engine [65] ''Mono'' (uint number)
                        (uint (desc_from ?none)) (uint (desc_to ?none)))
               | Inl ex \<Rightarrow> []) [''10'', ''12'']))"
    by (rule sequencer_tokens [THEN conjunct2, THEN conjunct2, THEN conjunct2, THEN conjunct2,
          THEN mp, OF after_name])
  then have stream: "main_loop sample_engine [65] ?none [''Mono'', ''10'', ''12''] []
      = Inr (serialize_no_comma (specified_table sample_engine [65] ''Mono'' 10 65 65)
             @ serialize_no_comma (specified_table sample_engine [65] ''Mono'' 12 65 65))"
    by (simp add: stoul_10 stoul_12 del: main_loop.simps)
  from name ignored table stream show ?thesis
    by (simp add: stoul_Mono stoul_10 stoul_12)
qed

text \<open>
  C2 as stated fails: with the font name \<open>Mono\<close> recorded, the token \<open>4294967295\<close>
  parses as that positive number, and the entry printed has the size \<open>-1\<close>, the value of
  the \<^verbatim>\<open>int\<close> field the number is stored in; it is not the entry for the size 4294967295.
\<close>

theorem sequencer_tokens_counterexample:
  "stoul ''4294967295'' = Inr 4294967295
   \<and> (0 :: ulong) < 4294967295
   \<and> process_token sample_engine [66]
         \<lparr>desc_name = ''Mono'', desc_size = 0, desc_from = 66, desc_to = 66\<rparr> ''4294967295''
       = Inr (\<lparr>desc_name = ''Mono'', desc_size = - 1, desc_from = 66, desc_to = 66\<rparr>,
              serialize_no_comma (specified_table sample_engine [66] ''Mono'' (- 1) 66 66))
   \<and> serialize_no_comma (specified_table sample_engine [66] ''Mono'' (- 1) 66 66)
       \<noteq> serialize_no_comma (specified_table sample_engine [66] ''Mono'' 4294967295 66 66)"
proof -
  let ?mono = "\<lparr>desc_name = ''Mono'', desc_size = 0, desc_from = 66, desc_to = 66\<rparr>"
  have parsed: "stoul ''4294967295'' = Inr 4294967295"
    by (simp add: stoul_eval)
  have cut: "(ucast (4294967295 :: ulong) :: cint) = - 1"
    by simp
  have printed: "process_token sample_engine [66] ?mono ''4294967295''
      = Inr (?mono\<lparr>desc_size := - 1\<rparr>,
             serialize_no_comma (specified_table sample_engine [66] ''Mono'' (- 1) 66 66))"
    using process_token_size [OF parsed, of ?mono sample_engine "[66]"]
    by (simp add: cut)
  have digits: "show_int (- 1) = ''-1''" "show_int 4294967295 = ''4294967295''"
    by (simp_all add: show_int_def show_nat.simps digit_char_def)
  have "serialize_fields (specified_table sample_engine [66] ''Mono'' (- 1) 66 66)
      \<noteq> serialize_fields (specified_table sample_engine [66] ''Mono'' 4294967295 66 66)"
    by (simp add: serialize_fields_def specified_table_def digits)
  then have "serialize_no_comma (specified_table sample_engine [66] ''Mono'' (- 1) 66 66)
      \<noteq> serialize_no_comma (specified_table sample_engine [66] ''Mono'' 4294967295 66 66)"
    by (simp add: serialize_no_comma_def)
  with parsed printed show ?thesis
    by simp
qed

text \<open>
  Two more tokens that the sequencer meets. A numeral above the range of
  \<^verbatim>\<open>unsigned long\<close> makes \<open>stoul\<close> throw \<^verbatim>\<open>std::out_of_range\<close>, which the \<^verbatim>\<open>catch\<close>
  clause does not stop: the run ends there, after the opening lines of the array. The
  empty token records the empty name, with which a size token prints nothing.
\<close>

lemma main_size_out_of_range:
  "main e [''FontRenderer'', ''65'', ''65'', ''uint8_t'', ''font'', ''Mono'',
           ''99999999999999999999'']
     = Some (Uncaught out_of_range (openFontArray ''uint8_t'' ''font''))"
proof -
  have "stoul ''99999999999999999999'' = Inl out_of_range"
    by (simp add: stoul_eval)
  then show ?thesis
    by (simp add: main_def main_after_parse_def coerce_uint8_def getCharacters_65_65
        process_token_def Let_def stoul_65 stoul_Mono)
qed

lemma process_token_empty_name:
  "process_token e characters desc [] = Inr (desc\<lparr>desc_name := []\<rparr>, [])"
  by (simp add: process_token_def stoul_eval)

end
